theory Spec2Isabelle
  imports Complex_Main "HOL-Library.Multiset"
begin

section \<open>Year-over-year growth rates (examples/basic_usage.py)\<close>

text \<open>
  The function \<^verbatim>\<open>calculate_growth_rates\<close> of \<^verbatim>\<open>examples/basic_usage.py\<close>
  is embedded as it is written: the early return for fewer than two records (with its
  \<^verbatim>\<open>print\<close> and its \<^verbatim>\<open>{}\<close>), the stable sort by year, the index loop
  from 1 to \<^verbatim>\<open>len(sorted_metrics)\<close>, the \<^verbatim>\<open>continue\<close> on a zero previous
  revenue and the five computed dictionary values with their inline guards.

  Amounts are exact rationals. Python's \<^verbatim>\<open>/\<close> is true division, which raises
  \<^verbatim>\<open>ZeroDivisionError\<close> on a zero divisor; the rounding of the quotient to a
  double is not part of this model.
\<close>

subsection \<open>Data\<close>

text \<open>
  The attributes of a \<^verbatim>\<open>FinancialMetric\<close> that the function reads. The class
  itself belongs to the \<^verbatim>\<open>finbro\<close> library; its other attributes (cash flows,
  balance sheet, share count) are never read here.
\<close>

record financial_metric =
  ticker :: string
  year :: int
  revenue :: rat
  gross_profit :: rat
  operating_income :: rat
  net_income :: rat

text \<open>
  The dictionary built at lines 36 to 44. Its seven keys are always present; a value
  that may be \<^verbatim>\<open>None\<close> is an option. The keys \<^verbatim>\<open>"ticker"\<close> and
  \<^verbatim>\<open>"year"\<close> are the fields \<open>g_ticker\<close> and \<open>g_year\<close>, the plain
  names being those of the attributes above.
\<close>

record growth =
  g_ticker :: string
  g_year :: int
  revenue_growth :: rat
  net_income_growth :: "rat option"
  gross_margin :: "rat option"
  operating_margin :: "rat option"
  net_margin :: "rat option"

datatype py_error = ZeroDivisionError

text \<open>
  The two values the function returns: the empty dictionary \<^verbatim>\<open>{}\<close> of line 21
  and the list \<^verbatim>\<open>growth_rates\<close> of line 48.
\<close>

datatype growth_result = EmptyDict | GrowthList "growth list"

text \<open>
  What \<^verbatim>\<open>for rate in growth_rates\<close> (line 116) iterates over: nothing for the
  empty dictionary, the elements for a list.
\<close>

fun entries :: "growth_result \<Rightarrow> growth list" where
  "entries EmptyDict = []"
| "entries (GrowthList gs) = gs"

subsection \<open>Arithmetic\<close>

definition truediv :: "rat \<Rightarrow> rat \<Rightarrow> py_error + rat" where
  "truediv a b = (if b = 0 then Inl ZeroDivisionError else Inr (a / b))"

text \<open>The expression \<^verbatim>\<open>a / b * 100\<close>.\<close>

definition percent :: "rat \<Rightarrow> rat \<Rightarrow> py_error + rat" where
  "percent a b = (case truediv a b of Inl e \<Rightarrow> Inl e | Inr q \<Rightarrow> Inr (q * 100))"

text \<open>
  The conditional expression \<^verbatim>\<open>x if c else None\<close>: the condition is evaluated
  first, and \<^verbatim>\<open>x\<close> only when it holds.
\<close>

definition if_else_None :: "bool \<Rightarrow> py_error + rat \<Rightarrow> py_error + rat option" where
  "if_else_None c x =
     (if c then (case x of Inl e \<Rightarrow> Inl e | Inr v \<Rightarrow> Inr (Some v)) else Inr None)"

subsection \<open>The function\<close>

text \<open>
  The dictionary display of lines 36 to 44; its values are evaluated in the order they
  are written, and the first exception ends the evaluation.
\<close>

definition make_growth :: "financial_metric \<Rightarrow> financial_metric \<Rightarrow> py_error + growth" where
  "make_growth previous current =
     (case percent (revenue current - revenue previous) (revenue previous) of
        Inl e \<Rightarrow> Inl e
      | Inr rg \<Rightarrow>
     (case if_else_None (net_income previous \<noteq> 0)
             (percent (net_income current - net_income previous) (net_income previous)) of
        Inl e \<Rightarrow> Inl e
      | Inr nig \<Rightarrow>
     (case if_else_None (revenue current \<noteq> 0)
             (percent (gross_profit current) (revenue current)) of
        Inl e \<Rightarrow> Inl e
      | Inr gm \<Rightarrow>
     (case if_else_None (revenue current \<noteq> 0)
             (percent (operating_income current) (revenue current)) of
        Inl e \<Rightarrow> Inl e
      | Inr om \<Rightarrow>
     (case if_else_None (revenue current \<noteq> 0)
             (percent (net_income current) (revenue current)) of
        Inl e \<Rightarrow> Inl e
      | Inr nm \<Rightarrow>
          Inr \<lparr> g_ticker = ticker current, g_year = year current,
                revenue_growth = rg, net_income_growth = nig,
                gross_margin = gm, operating_margin = om, net_margin = nm \<rparr>)))))"

text \<open>
  The loop \<^verbatim>\<open>for i in range(1, len(sorted_metrics))\<close> of lines 28 to 46, from
  index \<open>i\<close> on, with the list \<^verbatim>\<open>growth_rates\<close> built so far. The loop starts
  at 1, so \<open>i - 1\<close> is an index of the list.
\<close>

function growth_loop ::
  "financial_metric list \<Rightarrow> nat \<Rightarrow> growth list \<Rightarrow> py_error + growth list" where
  "growth_loop sorted_metrics i growth_rates =
     (if i < length sorted_metrics then
        (let current = sorted_metrics ! i;
             previous = sorted_metrics ! (i - 1)
         in if revenue previous = 0 then growth_loop sorted_metrics (i + 1) growth_rates
            else (case make_growth previous current of
                    Inl e \<Rightarrow> Inl e
                  | Inr g \<Rightarrow> growth_loop sorted_metrics (i + 1) (growth_rates @ [g])))
      else Inr growth_rates)"
  by pat_completeness auto
termination
  by (relation "measure (\<lambda>(sorted_metrics, i, growth_rates). length sorted_metrics - i)") auto

declare growth_loop.simps [simp del]

text \<open>
  \<^verbatim>\<open>sorted(metrics, key=lambda x: x.year)\<close>: a stable sort that returns a new
  list, as \<open>sort_key\<close> is.
\<close>

definition sorted_metrics_of :: "financial_metric list \<Rightarrow> financial_metric list" where
  "sorted_metrics_of metrics = sort_key year metrics"

definition need_two_years :: string where
  "need_two_years = ''Need at least two years of data to calculate growth rates''"

text \<open>
  The function takes the lines printed so far and returns them with its own; its
  result is an error when an exception leaves the function.
\<close>

definition calculate_growth_rates ::
  "financial_metric list \<Rightarrow> string list \<Rightarrow> (py_error + growth_result) \<times> string list" where
  "calculate_growth_rates metrics out =
     (if length metrics < 2 then (Inr EmptyDict, out @ [need_two_years])
      else (case growth_loop (sorted_metrics_of metrics) 1 [] of
              Inl e \<Rightarrow> (Inl e, out)
            | Inr growth_rates \<Rightarrow> (Inr (GrowthList growth_rates), out)))"

subsection \<open>The entry of the specification, and the positions of the loop\<close>

text \<open>
  The entry that steps (b) to (d) of the specification's algorithm describe for a pair
  \<open>(previous, current)\<close> whose previous revenue is not zero, written with the plain
  division of the rationals. It is compared with \<open>make_growth\<close> below.
\<close>

definition expected_growth :: "financial_metric \<Rightarrow> financial_metric \<Rightarrow> growth" where
  "expected_growth previous current =
     \<lparr> g_ticker = ticker current, g_year = year current,
       revenue_growth = (revenue current - revenue previous) / revenue previous * 100,
       net_income_growth =
         (if net_income previous \<noteq> 0
          then Some ((net_income current - net_income previous) / net_income previous * 100)
          else None),
       gross_margin =
         (if revenue current \<noteq> 0 then Some (gross_profit current / revenue current * 100)
          else None),
       operating_margin =
         (if revenue current \<noteq> 0 then Some (operating_income current / revenue current * 100)
          else None),
       net_margin =
         (if revenue current \<noteq> 0 then Some (net_income current / revenue current * 100)
          else None) \<rparr>"

text \<open>
  Position \<open>i\<close> of the sorted list stands for the pair of the records at \<open>i - 1\<close>
  and \<open>i\<close>. The pair is not skipped when the guard of line 33 is false.
\<close>

definition not_skipped :: "financial_metric list \<Rightarrow> nat \<Rightarrow> bool" where
  "not_skipped sm i = (revenue (sm ! (i - 1)) \<noteq> 0)"

definition pair_entry :: "financial_metric list \<Rightarrow> nat \<Rightarrow> growth" where
  "pair_entry sm i = expected_growth (sm ! (i - 1)) (sm ! i)"

text \<open>The positions from \<open>i\<close> on whose pair is not skipped, in ascending order.\<close>

definition emitted :: "financial_metric list \<Rightarrow> nat \<Rightarrow> nat list" where
  "emitted sm i = filter (not_skipped sm) [i..<length sm]"


subsection \<open>Example records\<close>

text \<open>
  The years 2020 and 2021 carry the revenue and net income of the specification's
  scenario; 2019 has no net income, 2022 has no revenue, and 2020 occurs twice.
\<close>

definition rec_2019 :: financial_metric where
  "rec_2019 = \<lparr> ticker = ''ACME'', year = 2019, revenue = 80, gross_profit = 30,
                 operating_income = 10, net_income = 0 \<rparr>"

definition rec_2020 :: financial_metric where
  "rec_2020 = \<lparr> ticker = ''ACME'', year = 2020, revenue = 100, gross_profit = 40,
                 operating_income = 20, net_income = 10 \<rparr>"

definition rec_2020_restated :: financial_metric where
  "rec_2020_restated = \<lparr> ticker = ''ACME'', year = 2020, revenue = 120, gross_profit = 45,
                          operating_income = 25, net_income = 12 \<rparr>"

definition rec_2021 :: financial_metric where
  "rec_2021 = \<lparr> ticker = ''ACME'', year = 2021, revenue = 150, gross_profit = 60,
                 operating_income = 30, net_income = 20 \<rparr>"

definition rec_2022 :: financial_metric where
  "rec_2022 = \<lparr> ticker = ''ACME'', year = 2022, revenue = 0, gross_profit = 0,
                 operating_income = - 5, net_income = - 5 \<rparr>"

definition rec_2023 :: financial_metric where
  "rec_2023 = \<lparr> ticker = ''ACME'', year = 2023, revenue = 200, gross_profit = 90,
                 operating_income = 50, net_income = 30 \<rparr>"

definition rec_2024 :: financial_metric where
  "rec_2024 = \<lparr> ticker = ''ACME'', year = 2024, revenue = 260, gross_profit = 130,
                 operating_income = 65, net_income = 39 \<rparr>"

lemmas recs =
  rec_2019_def rec_2020_def rec_2020_restated_def rec_2021_def rec_2022_def rec_2023_def
  rec_2024_def

section \<open>The loop, position by position\<close>

lemma percent_nonzero: "b \<noteq> 0 \<Longrightarrow> percent a b = Inr (a / b * 100)"
  by (simp add: percent_def truediv_def)

lemma if_else_None_percent:
  "if_else_None (b \<noteq> 0) (percent a b) = Inr (if b \<noteq> 0 then Some (a / b * 100) else None)"
  by (simp add: if_else_None_def percent_nonzero)

text \<open>
  With a previous revenue that is not zero the dictionary display raises nothing and
  builds the entry of the specification. With a zero previous revenue it would raise:
  the guard of line 33 is what keeps the first division safe.
\<close>

lemma make_growth_nonzero:
  "revenue previous \<noteq> 0 \<Longrightarrow>
   make_growth previous current = Inr (expected_growth previous current)"
  unfolding make_growth_def expected_growth_def
  by (simp add: if_else_None_percent percent_nonzero)

lemma make_growth_zero:
  "revenue previous = 0 \<Longrightarrow> make_growth previous current = Inl ZeroDivisionError"
  by (simp add: make_growth_def percent_def truediv_def)

lemma growth_loop_skip:
  "i < length sm \<Longrightarrow> revenue (sm ! (i - 1)) = 0 \<Longrightarrow>
   growth_loop sm i acc = growth_loop sm (Suc i) acc"
  by (subst growth_loop.simps) simp

lemma growth_loop_emit:
  "i < length sm \<Longrightarrow> revenue (sm ! (i - 1)) \<noteq> 0 \<Longrightarrow>
   growth_loop sm i acc = growth_loop sm (Suc i) (acc @ [pair_entry sm i])"
  by (subst growth_loop.simps) (simp add: make_growth_nonzero pair_entry_def)

lemma growth_loop_done: "\<not> i < length sm \<Longrightarrow> growth_loop sm i acc = Inr acc"
  by (subst growth_loop.simps) simp

text \<open>
  The loop returns, and what it appends is the entry of every position that is not
  skipped, in ascending order of the positions.
\<close>

lemma growth_loop_emitted:
  "growth_loop sm i acc = Inr (acc @ map (pair_entry sm) (emitted sm i))"
proof (induction "length sm - i" arbitrary: i acc)
  case 0
  then show ?case by (simp add: growth_loop_done emitted_def)
next
  case (Suc n)
  then have lt: "i < length sm" and n: "n = length sm - Suc i" by simp_all
  have upt: "[i..<length sm] = i # [Suc i..<length sm]"
    using lt by (simp add: upt_conv_Cons)
  show ?case
  proof (cases "revenue (sm ! (i - 1)) = 0")
    case True
    then show ?thesis
      using lt Suc.hyps(1)[OF n] upt
      by (simp add: growth_loop_skip emitted_def not_skipped_def)
  next
    case False
    then show ?thesis
      using lt Suc.hyps(1)[OF n] upt
      by (simp add: growth_loop_emit emitted_def not_skipped_def)
  qed
qed

lemma length_sorted_metrics_of [simp]:
  "length (sorted_metrics_of metrics) = length metrics"
  by (simp add: sorted_metrics_of_def)

lemma calculate_growth_rates_long:
  "2 \<le> length metrics \<Longrightarrow>
   calculate_growth_rates metrics out =
     (Inr (GrowthList (map (pair_entry (sorted_metrics_of metrics))
                          (emitted (sorted_metrics_of metrics) 1))), out)"
  by (simp add: calculate_growth_rates_def growth_loop_emitted)

lemma calculate_growth_rates_short:
  "length metrics < 2 \<Longrightarrow>
   calculate_growth_rates metrics out = (Inr EmptyDict, out @ [need_two_years])"
  by (simp add: calculate_growth_rates_def)

lemma entries_result:
  "\<exists>r. fst (calculate_growth_rates metrics out) = Inr r \<and>
       entries r = map (pair_entry (sorted_metrics_of metrics))
                       (emitted (sorted_metrics_of metrics) 1)"
proof (cases "length metrics < 2")
  case True
  then have "emitted (sorted_metrics_of metrics) 1 = []"
    by (auto simp: emitted_def)
  with True show ?thesis by (simp add: calculate_growth_rates_short)
next
  case False
  then show ?thesis by (simp add: calculate_growth_rates_long)
qed



section \<open>Revenue growth of an emitted pair\<close>



section \<open>Skipped pairs\<close>

lemma mset_years_sorted:
  "mset (map year (sorted_metrics_of metrics)) = mset (map year metrics)"
  by (simp add: sorted_metrics_of_def)

lemma distinct_years_sorted:
  "distinct (map year (sorted_metrics_of metrics)) = distinct (map year metrics)"
  by (rule mset_eq_imp_distinct_iff[OF mset_years_sorted])

lemma g_year_pair_entry: "g_year (pair_entry sm j) = year (sm ! j)"
  by (simp add: pair_entry_def expected_growth_def)

lemma set_emitted: "set (emitted sm a) = {j. a \<le> j \<and> j < length sm \<and> not_skipped sm j}"
  by (auto simp: emitted_def)

text \<open>
  Claim C2. For every input and every adjacent pair of the year-sorted records whose
  previous revenue is zero, nothing is emitted for the pair, whatever the other fields of
  the two records are: the iteration of the loop at that position leaves the list
  \<open>growth_rates\<close> as it was, and, when the years of the input are pairwise distinct (so
  that an entry is identified by its year), no entry of the result carries the year of
  the pair's current record.
\<close>

theorem zero_previous_revenue_skips_pair:
  assumes "1 \<le> i" and "i < length (sorted_metrics_of metrics)"
    and "revenue (sorted_metrics_of metrics ! (i - 1)) = 0"
  shows "growth_loop (sorted_metrics_of metrics) i growth_rates
           = growth_loop (sorted_metrics_of metrics) (i + 1) growth_rates
         \<and> (distinct (map year metrics) \<longrightarrow>
              (\<exists>r. fst (calculate_growth_rates metrics out) = Inr r
                 \<and> (\<forall>g \<in> set (entries r). g_year g \<noteq> year (sorted_metrics_of metrics ! i))))"
proof
  let ?sm = "sorted_metrics_of metrics"
  show "growth_loop ?sm i growth_rates = growth_loop ?sm (i + 1) growth_rates"
    using growth_loop_skip[OF assms(2,3)] by simp
  show "distinct (map year metrics) \<longrightarrow>
          (\<exists>r. fst (calculate_growth_rates metrics out) = Inr r
             \<and> (\<forall>g \<in> set (entries r). g_year g \<noteq> year (?sm ! i)))"
  proof
    assume d: "distinct (map year metrics)"
    then have ds: "distinct (map year ?sm)" by (simp add: distinct_years_sorted)
    have ne: "year (?sm ! j) \<noteq> year (?sm ! i)" if "j \<in> set (emitted ?sm 1)" for j
    proof -
      from that have j: "j < length ?sm" and "not_skipped ?sm j" by (simp_all add: set_emitted)
      then have "j \<noteq> i" using assms(3) by (auto simp: not_skipped_def)
      then show ?thesis
        using ds j assms(2) by (simp add: distinct_conv_nth)
    qed
    from entries_result[of metrics out] obtain r where
      r: "fst (calculate_growth_rates metrics out) = Inr r"
         "entries r = map (pair_entry ?sm) (emitted ?sm 1)" by blast
    have "\<forall>g \<in> set (entries r). g_year g \<noteq> year (?sm ! i)"
      using ne by (auto simp: r(2) g_year_pair_entry)
    with r(1) show "\<exists>r. fst (calculate_growth_rates metrics out) = Inr r
             \<and> (\<forall>g \<in> set (entries r). g_year g \<noteq> year (?sm ! i))" by blast
  qed
qed

text \<open>
  The year 2022 has no revenue, so the pair (2022, 2023) at position 2 of the sorted
  records is skipped and no entry is dated 2023.
\<close>

theorem zero_previous_revenue_skips_pair_witness:
  "1 \<le> (2::nat) \<and> 2 < length (sorted_metrics_of [rec_2024, rec_2022, rec_2021, rec_2023])
   \<and> revenue (sorted_metrics_of [rec_2024, rec_2022, rec_2021, rec_2023] ! (2 - 1)) = 0
   \<and> distinct (map year [rec_2024, rec_2022, rec_2021, rec_2023])
   \<and> growth_loop [rec_2021, rec_2022, rec_2023, rec_2024] 2 []
       = growth_loop [rec_2021, rec_2022, rec_2023, rec_2024] 3 []
   \<and> (\<exists>r. fst (calculate_growth_rates [rec_2024, rec_2022, rec_2021, rec_2023] []) = Inr r
          \<and> (\<forall>g \<in> set (entries r). g_year g \<noteq> 2023))"
proof -
  have s: "sorted_metrics_of [rec_2024, rec_2022, rec_2021, rec_2023]
             = [rec_2021, rec_2022, rec_2023, rec_2024]"
    by (simp add: sorted_metrics_of_def recs)
  have h1: "1 \<le> (2::nat)" by simp
  have h2: "2 < length (sorted_metrics_of [rec_2024, rec_2022, rec_2021, rec_2023])" by simp
  have h3: "revenue (sorted_metrics_of [rec_2024, rec_2022, rec_2021, rec_2023] ! (2 - 1)) = 0"
    by (simp add: s) (simp add: recs)
  have h4: "distinct (map year [rec_2024, rec_2022, rec_2021, rec_2023])"
    by (simp add: recs)
  have y: "year ([rec_2021, rec_2022, rec_2023, rec_2024] ! 2) = 2023"
    by (simp add: recs)
  from zero_previous_revenue_skips_pair[OF h1 h2 h3, of "[]" "[]"] h4
  have "growth_loop [rec_2021, rec_2022, rec_2023, rec_2024] 2 []
          = growth_loop [rec_2021, rec_2022, rec_2023, rec_2024] 3 []"
    and "\<exists>r. fst (calculate_growth_rates [rec_2024, rec_2022, rec_2021, rec_2023] []) = Inr r
          \<and> (\<forall>g \<in> set (entries r). g_year g \<noteq> 2023)"
    unfolding s y by simp_all
  with h1 h2 h3 h4 show ?thesis by blast
qed

section \<open>Fewer than two records\<close>

text \<open>
  Claim C3. With no record and with one record the function prints its message and
  returns the empty dictionary \<^verbatim>\<open>{}\<close> of line 21, which is not a list. The
  other path returns the list \<^verbatim>\<open>growth_rates\<close>, also when nothing was appended
  to it: two records whose only pair is skipped give the empty list.
\<close>

theorem short_input_returns_empty_dict:
  "calculate_growth_rates [] [] = (Inr EmptyDict, [need_two_years])
   \<and> calculate_growth_rates [rec_2020] [] = (Inr EmptyDict, [need_two_years])
   \<and> calculate_growth_rates [rec_2022, rec_2023] [] = (Inr (GrowthList []), [])
   \<and> EmptyDict \<noteq> GrowthList []"
  by code_simp

section \<open>Margins and net income growth\<close>





section \<open>Order of the output and order of the input\<close>

lemma strict_years_sorted:
  assumes "distinct (map year metrics)"
  shows "sorted_wrt (<) (map year (sorted_metrics_of metrics))"
  using assms distinct_years_sorted[of metrics]
  by (simp add: strict_sorted_iff sorted_metrics_of_def)

lemma years_of_entries_strict:
  assumes "distinct (map year metrics)"
  shows "sorted_wrt (<) (map g_year (map (pair_entry (sorted_metrics_of metrics))
                                        (emitted (sorted_metrics_of metrics) 1)))"
proof -
  let ?sm = "sorted_metrics_of metrics"
  have idx: "sorted_wrt (<) (emitted ?sm 1)"
    unfolding emitted_def by (rule sorted_wrt_filter) simp
  have mono: "year (?sm ! j) < year (?sm ! k)"
    if "j \<in> set (emitted ?sm 1)" "k \<in> set (emitted ?sm 1)" "j < k" for j k
  proof -
    from that(2) have "k < length (map year ?sm)" by (simp add: set_emitted)
    from sorted_wrt_nth_less[OF strict_years_sorted[OF assms] that(3) this]
    show ?thesis using that(3) \<open>k < length (map year ?sm)\<close> by simp
  qed
  have "sorted_wrt (\<lambda>j k. year (?sm ! j) < year (?sm ! k)) (emitted ?sm 1)"
    by (rule sorted_wrt_mono_rel[OF _ idx]) (rule mono)
  then show ?thesis
    by (simp add: sorted_wrt_map g_year_pair_entry)
qed

lemma filter_same_key:
  "distinct (map f zs) \<Longrightarrow> k \<in> set zs \<Longrightarrow> filter (\<lambda>x. f k = f x) zs = [k]"
proof (induction zs)
  case Nil
  then show ?case by simp
next
  case (Cons z zs)
  show ?case
  proof (cases "k = z")
    case True
    have "filter (\<lambda>x. f z = f x) zs = []"
      using Cons.prems(1) by (auto simp: filter_empty_conv)
    with True show ?thesis by simp
  next
    case False
    with Cons.prems(2) have kz: "k \<in> set zs" by simp
    from Cons.prems(1) have "f z \<notin> f ` set zs" by simp
    with kz have "f k \<noteq> f z" by (metis imageI)
    with kz Cons show ?thesis by simp
  qed
qed

text \<open>With pairwise distinct years the sorted list depends on the records only.\<close>

lemma sorted_metrics_of_permutation:
  assumes "distinct (map year metrics)" and "mset metrics' = mset metrics"
  shows "sorted_metrics_of metrics' = sorted_metrics_of metrics"
proof -
  let ?ys = "sort_key year metrics"
  have d': "distinct (map year metrics')"
    using assms by (metis mset_eq_imp_distinct_iff mset_map)
  have dy: "distinct (map year ?ys)"
    using assms(1) distinct_years_sorted[of metrics] by (simp add: sorted_metrics_of_def)
  have m: "mset ?ys = mset metrics'" using assms(2) by simp
  have s: "set metrics' = set ?ys" using m by (metis mset_eq_setD)
  have "sort_key year metrics' = ?ys"
  proof (rule properties_for_sort_key[OF m])
    fix k assume k: "k \<in> set ?ys"
    then have "k \<in> set metrics'" using s by simp
    then show "filter (\<lambda>x. year k = year x) ?ys = filter (\<lambda>x. year k = year x) metrics'"
      using filter_same_key[OF dy k] filter_same_key[OF d'] by simp
  next
    show "sorted (map year ?ys)" by simp
  qed
  then show ?thesis by (simp add: sorted_metrics_of_def)
qed

lemma calculate_growth_rates_cong_sorted:
  assumes "length metrics' = length metrics"
    and "sorted_metrics_of metrics' = sorted_metrics_of metrics"
  shows "calculate_growth_rates metrics' out = calculate_growth_rates metrics out"
  using assms by (simp add: calculate_growth_rates_def)

text \<open>
  Claim C6. For every input whose years are pairwise distinct, the years of the entries
  of the result are strictly increasing, and every permutation of the input gives the
  same result (and the same printed lines).
\<close>

theorem output_years_increasing_and_order_independent:
  assumes "distinct (map year metrics)"
  shows "(\<exists>r. fst (calculate_growth_rates metrics out) = Inr r
              \<and> sorted_wrt (<) (map g_year (entries r)))
         \<and> (\<forall>metrics'. mset metrics' = mset metrics \<longrightarrow>
               calculate_growth_rates metrics' out = calculate_growth_rates metrics out)"
proof
  from entries_result[of metrics out] years_of_entries_strict[OF assms]
  show "\<exists>r. fst (calculate_growth_rates metrics out) = Inr r
              \<and> sorted_wrt (<) (map g_year (entries r))"
    by auto
next
  show "\<forall>metrics'. mset metrics' = mset metrics \<longrightarrow>
               calculate_growth_rates metrics' out = calculate_growth_rates metrics out"
  proof (intro allI impI)
    fix metrics' assume m: "mset metrics' = mset metrics"
    then have "length metrics' = length metrics" by (metis size_mset)
    then show "calculate_growth_rates metrics' out = calculate_growth_rates metrics out"
      using sorted_metrics_of_permutation[OF assms m]
      by (rule calculate_growth_rates_cong_sorted)
  qed
qed

text \<open>Four years in two different orders: one result, dated 2022 and 2024.\<close>

theorem output_years_increasing_and_order_independent_witness:
  "distinct (map year [rec_2024, rec_2022, rec_2021, rec_2023])
   \<and> mset [rec_2021, rec_2023, rec_2024, rec_2022] = mset [rec_2024, rec_2022, rec_2021, rec_2023]
   \<and> (\<exists>r. fst (calculate_growth_rates [rec_2024, rec_2022, rec_2021, rec_2023] []) = Inr r
          \<and> sorted_wrt (<) (map g_year (entries r)))
   \<and> calculate_growth_rates [rec_2021, rec_2023, rec_2024, rec_2022] []
       = calculate_growth_rates [rec_2024, rec_2022, rec_2021, rec_2023] []"
proof -
  have h1: "distinct (map year [rec_2024, rec_2022, rec_2021, rec_2023])"
    by (simp add: recs)
  have h2: "mset [rec_2021, rec_2023, rec_2024, rec_2022]
              = mset [rec_2024, rec_2022, rec_2021, rec_2023]"
    by (simp add: add_mset_commute)
  from output_years_increasing_and_order_independent[OF h1, of "[]"] h1 h2
  show ?thesis by blast
qed

section \<open>Two records of one year\<close>





section \<open>Printed output\<close>




section \<open>No division by zero\<close>

text \<open>
  Claim C9. For every input the function returns a value and raises nothing. Each of
  the five divisions of lines 39 to 43 goes through \<open>truediv\<close>, which fails on a zero
  divisor, and a failure ends the call (as \<open>make_growth_zero\<close> shows for the first
  division, were it not for the guard of line 33); so no division that is performed
  meets a zero divisor, and the loop terminates.
\<close>

theorem no_division_by_zero:
  "\<exists>r. fst (calculate_growth_rates metrics out) = Inr r"
  by (cases "length metrics < 2")
     (simp_all add: calculate_growth_rates_short calculate_growth_rates_long)

theorem no_division_by_zero_witness:
  "\<exists>r. fst (calculate_growth_rates [rec_2024, rec_2022, rec_2021, rec_2023] []) = Inr r"
  using no_division_by_zero[of "[rec_2024, rec_2022, rec_2021, rec_2023]" "[]"] .

section \<open>How many entries\<close>

lemma length_emitted_card:
  "length (emitted sm 1) = card {i. 1 \<le> i \<and> i < length sm \<and> revenue (sm ! (i - 1)) \<noteq> 0}"
proof -
  have "distinct (emitted sm 1)" by (simp add: emitted_def)
  then have "length (emitted sm 1) = card (set (emitted sm 1))"
    by (simp add: distinct_card)
  then show ?thesis by (simp add: set_emitted not_skipped_def)
qed

lemma previous_records: "map (\<lambda>j. sm ! (j - 1)) [1..<length sm] = butlast sm"
proof (rule nth_equalityI)
  show "length (map (\<lambda>j. sm ! (j - 1)) [1..<length sm]) = length (butlast sm)" by simp
next
  fix k assume "k < length (map (\<lambda>j. sm ! (j - 1)) [1..<length sm])"
  then have "k < length sm - 1" by simp
  then show "map (\<lambda>j. sm ! (j - 1)) [1..<length sm] ! k = butlast sm ! k"
    by (simp add: nth_butlast)
qed

lemma length_emitted_zero_years:
  "length (emitted sm 1) + length (filter (\<lambda>m. revenue m = 0) (butlast sm)) = length sm - 1"
proof -
  have "length (emitted sm 1)
          = length (filter (\<lambda>m. revenue m \<noteq> 0) (map (\<lambda>j. sm ! (j - 1)) [1..<length sm]))"
    by (simp add: emitted_def filter_map comp_def not_skipped_def[abs_def])
  then have "length (emitted sm 1) = length (filter (\<lambda>m. revenue m \<noteq> 0) (butlast sm))"
    by (simp only: previous_records)
  moreover have "length (filter (\<lambda>m. revenue m \<noteq> 0) (butlast sm))
       + length (filter (\<lambda>m. \<not> revenue m \<noteq> 0) (butlast sm)) = length (butlast sm)"
    by (rule sum_length_filter_compl)
  ultimately show ?thesis by simp
qed

text \<open>
  Claim C10. A skipped pair costs its own entry only. The number of entries of the result
  is the number of positions \<open>1 \<le> i < n\<close> of the year-sorted records whose predecessor
  has a revenue other than zero; together with the number of zero-revenue records that
  have a successor (those among the first \<open>n - 1\<close>) it makes \<open>n - 1\<close>, so each
  such record suppresses exactly one entry. And the current record of a skipped pair is
  the previous record of the next pair: when its own revenue is not zero, the next
  iteration appends the entry computed from it.
\<close>

theorem entry_count:
  "\<exists>r. fst (calculate_growth_rates metrics out) = Inr r
       \<and> length (entries r)
           = card {i. 1 \<le> i \<and> i < length (sorted_metrics_of metrics)
                      \<and> revenue (sorted_metrics_of metrics ! (i - 1)) \<noteq> 0}
       \<and> length (entries r)
           + length (filter (\<lambda>m. revenue m = 0) (butlast (sorted_metrics_of metrics)))
           = length metrics - 1
       \<and> (\<forall>i growth_rates.
             1 \<le> i \<and> i + 1 < length (sorted_metrics_of metrics)
             \<and> revenue (sorted_metrics_of metrics ! (i - 1)) = 0
             \<and> revenue (sorted_metrics_of metrics ! i) \<noteq> 0 \<longrightarrow>
             (\<exists>g. make_growth (sorted_metrics_of metrics ! i)
                               (sorted_metrics_of metrics ! (i + 1)) = Inr g
                \<and> growth_loop (sorted_metrics_of metrics) i growth_rates
                    = growth_loop (sorted_metrics_of metrics) (i + 2) (growth_rates @ [g])))"
proof -
  let ?sm = "sorted_metrics_of metrics"
  from entries_result[of metrics out] obtain r where
    r: "fst (calculate_growth_rates metrics out) = Inr r"
       "entries r = map (pair_entry ?sm) (emitted ?sm 1)" by blast
  have c1: "length (entries r)
              = card {i. 1 \<le> i \<and> i < length ?sm \<and> revenue (?sm ! (i - 1)) \<noteq> 0}"
    using length_emitted_card[of ?sm] by (simp add: r(2))
  have c2: "length (entries r) + length (filter (\<lambda>m. revenue m = 0) (butlast ?sm))
              = length metrics - 1"
    using length_emitted_zero_years[of ?sm] by (simp add: r(2))
  have c3: "\<exists>g. make_growth (?sm ! i) (?sm ! (i + 1)) = Inr g
                \<and> growth_loop ?sm i growth_rates = growth_loop ?sm (i + 2) (growth_rates @ [g])"
    if "1 \<le> i \<and> i + 1 < length ?sm \<and> revenue (?sm ! (i - 1)) = 0 \<and> revenue (?sm ! i) \<noteq> 0"
    for i growth_rates
  proof -
    from that have i: "i < length ?sm" and si: "Suc i < length ?sm"
      and z: "revenue (?sm ! (i - 1)) = 0" and nz: "revenue (?sm ! (Suc i - 1)) \<noteq> 0"
      by simp_all
    have "growth_loop ?sm i growth_rates = growth_loop ?sm (Suc i) growth_rates"
      by (rule growth_loop_skip[OF i z])
    also have "\<dots> = growth_loop ?sm (Suc (Suc i)) (growth_rates @ [pair_entry ?sm (Suc i)])"
      by (rule growth_loop_emit[OF si nz])
    finally show ?thesis
      using nz by (simp add: make_growth_nonzero pair_entry_def)
  qed
  from r(1) c1 c2 c3 show ?thesis by blast
qed

text \<open>
  Four years, 2022 without revenue: of the three pairs only (2022, 2023) is skipped, and
  2023, the current record of the skipped pair, is the previous record of the entry of
  2024.
\<close>

theorem entry_count_witness:
  "1 \<le> (2::nat) \<and> 2 + 1 < length (sorted_metrics_of [rec_2024, rec_2022, rec_2021, rec_2023])
   \<and> revenue (sorted_metrics_of [rec_2024, rec_2022, rec_2021, rec_2023] ! (2 - 1)) = 0
   \<and> revenue (sorted_metrics_of [rec_2024, rec_2022, rec_2021, rec_2023] ! 2) \<noteq> 0
   \<and> (\<exists>g. make_growth rec_2023 rec_2024 = Inr g
          \<and> growth_loop [rec_2021, rec_2022, rec_2023, rec_2024] 2 []
              = growth_loop [rec_2021, rec_2022, rec_2023, rec_2024] 4 [g])
   \<and> (\<exists>r. fst (calculate_growth_rates [rec_2024, rec_2022, rec_2021, rec_2023] []) = Inr r
          \<and> length (entries r) = 2
          \<and> length (entries r)
              = card {i. 1 \<le> i \<and> i < length [rec_2021, rec_2022, rec_2023, rec_2024]
                         \<and> revenue ([rec_2021, rec_2022, rec_2023, rec_2024] ! (i - 1)) \<noteq> 0})"
proof -
  let ?ms = "[rec_2024, rec_2022, rec_2021, rec_2023]"
  let ?sm = "[rec_2021, rec_2022, rec_2023, rec_2024]"
  have s: "sorted_metrics_of ?ms = ?sm"
    by (simp add: sorted_metrics_of_def recs)
  have h1: "1 \<le> (2::nat)" by simp
  have h2: "2 + 1 < length (sorted_metrics_of ?ms)" by simp
  have h3: "revenue (sorted_metrics_of ?ms ! (2 - 1)) = 0"
    by (simp add: s) (simp add: recs)
  have h4: "revenue (sorted_metrics_of ?ms ! 2) \<noteq> 0"
    by (simp add: s) (simp add: recs)
  from entry_count[of ?ms "[]"] obtain r where
    r: "fst (calculate_growth_rates ?ms []) = Inr r"
    and c: "length (entries r)
              = card {i. 1 \<le> i \<and> i < length (sorted_metrics_of ?ms)
                         \<and> revenue (sorted_metrics_of ?ms ! (i - 1)) \<noteq> 0}"
    and z: "length (entries r)
              + length (filter (\<lambda>m. revenue m = 0) (butlast (sorted_metrics_of ?ms)))
              = length ?ms - 1"
    and n: "\<forall>i growth_rates.
             1 \<le> i \<and> i + 1 < length (sorted_metrics_of ?ms)
             \<and> revenue (sorted_metrics_of ?ms ! (i - 1)) = 0
             \<and> revenue (sorted_metrics_of ?ms ! i) \<noteq> 0 \<longrightarrow>
             (\<exists>g. make_growth (sorted_metrics_of ?ms ! i) (sorted_metrics_of ?ms ! (i + 1)) = Inr g
                \<and> growth_loop (sorted_metrics_of ?ms) i growth_rates
                    = growth_loop (sorted_metrics_of ?ms) (i + 2) (growth_rates @ [g]))"
    by blast
  have zeros: "length (filter (\<lambda>m. revenue m = 0) (butlast ?sm)) = 1"
    by (simp add: recs)
  have two: "length (entries r) = 2"
    using z unfolding s zeros by simp
  have card: "length (entries r)
              = card {i. 1 \<le> i \<and> i < length ?sm \<and> revenue (?sm ! (i - 1)) \<noteq> 0}"
    using c unfolding s .
  from n h1 h2 h3 h4
  have "\<exists>g. make_growth (sorted_metrics_of ?ms ! 2) (sorted_metrics_of ?ms ! (2 + 1)) = Inr g
           \<and> growth_loop (sorted_metrics_of ?ms) 2 []
               = growth_loop (sorted_metrics_of ?ms) (2 + 2) ([] @ [g])"
    by blast
  then have next_pair: "\<exists>g. make_growth rec_2023 rec_2024 = Inr g
          \<and> growth_loop ?sm 2 [] = growth_loop ?sm 4 [g]"
    unfolding s by simp
  from h1 h2 h3 h4 next_pair r two card show ?thesis by blast
qed

end
